theory Spec2Isabelle
  imports Main
begin

section \<open>Template model of pkg/template/template.go\<close>

text \<open>
  Go strings are byte sequences, so they are modelled by \<open>string\<close> (a list of 8-bit
  characters). \<open>Type\<close> and \<open>ResponseType\<close> are named string types that the code only
  compares with string constants; \<open>HTTPMethod\<close> is a named string type that
  \<open>HTTPMethodsAsString\<close> converts explicitly, so it is kept as a type of its own with
  the conversion \<open>string_of\<close>.
\<close>

type_synonym Type = string

definition RawTemplateType :: Type where
  "RawTemplateType = ''raw''"

definition ShodanTemplateType :: Type where
  "ShodanTemplateType = ''shodan''"

datatype HTTPMethod = HTTPMethod (string_of: string)

definition MethodGet :: HTTPMethod where
  "MethodGet = HTTPMethod ''GET''"

definition MethodHead :: HTTPMethod where
  "MethodHead = HTTPMethod ''HEAD''"

definition MethodPost :: HTTPMethod where
  "MethodPost = HTTPMethod ''POST''"

definition MethodPut :: HTTPMethod where
  "MethodPut = HTTPMethod ''PUT''"

definition MethodPatch :: HTTPMethod where
  "MethodPatch = HTTPMethod ''PATCH''"

definition MethodDelete :: HTTPMethod where
  "MethodDelete = HTTPMethod ''DELETE''"

definition MethodConnect :: HTTPMethod where
  "MethodConnect = HTTPMethod ''CONNECT''"

definition MethodOptions :: HTTPMethod where
  "MethodOptions = HTTPMethod ''OPTIONS''"

definition MethodTrace :: HTTPMethod where
  "MethodTrace = HTTPMethod ''TRACE''"

type_synonym ResponseType = string

definition RawResponseType :: ResponseType where
  "RawResponseType = ''raw''"

definition FileResponseType :: ResponseType where
  "FileResponseType = ''file''"

record Request =
  ID :: string
  Methods :: "HTTPMethod list"
  Endpoint :: string
  ResponseType :: ResponseType
  ContentType :: string
  Content :: string

record Template =
  Type :: Type
  Requests :: "Request list"
  Ignore :: "string list"
  IP :: string

text \<open>The zero value \<open>Request{}\<close>: every string empty, the slice nil.\<close>

definition zero_Request :: Request where
  "zero_Request =
     \<lparr>ID = [], Methods = [], Endpoint = [], ResponseType = [], ContentType = [], Content = []\<rparr>"

subsection \<open>Errors and outcomes\<close>

text \<open>
  Every error of the package is built by \<open>errors.New(text)\<close>; it is modelled by its text.
  A function of result type \<open>error\<close> returns nil (\<open>Success\<close>), returns an error
  (\<open>Failure\<close>), or does not return because indexing a string out of range panics
  (\<open>Fault\<close>).
\<close>

datatype error = New string

datatype outcome = Success | Failure error | Fault

text \<open>The error kinds, named as in the specification, with the texts of the source.\<close>

definition MissingType :: error where
  "MissingType = New ''template: missing template type''"

definition DuplicateID :: error where
  "DuplicateID = New ''template: request IDs are not unique''"

definition DuplicateEndpoint :: error where
  "DuplicateEndpoint = New ''template: request endpoints are not unique''"

definition MissingDefault :: error where
  "MissingDefault = New ''template: missing default request''"

definition MissingIP :: error where
  "MissingIP = New ''template: ip is mandatory''"

definition MissingID :: error where
  "MissingID = New ''template: missing id in request''"

definition MissingEndpoint :: "string \<Rightarrow> error" where
  "MissingEndpoint i = New (''template: missing endpoint in request with id '' @ i)"

definition MissingMethods :: "string \<Rightarrow> error" where
  "MissingMethods i = New (''template: missing methods in request with id '' @ i)"

definition MissingResponseType :: "string \<Rightarrow> error" where
  "MissingResponseType i = New (''template: missing response type in request with id '' @ i)"

definition MissingContentType :: "string \<Rightarrow> error" where
  "MissingContentType i = New (''template: missing content type in request with id '' @ i)"

definition MissingContent :: "string \<Rightarrow> error" where
  "MissingContent i = New (''template: missing content in request with id '' @ i)"

definition MissingDefaultResponseType :: error where
  "MissingDefaultResponseType = New ''template: missing response type in default request''"

definition MissingDefaultContentType :: error where
  "MissingDefaultContentType = New ''template: missing content type in default request''"

definition MissingDefaultContent :: error where
  "MissingDefaultContent = New ''template: missing content in default request''"

definition DuplicateIgnorePath :: error where
  "DuplicateIgnorePath = New ''template: duplicate paths in ignore array''"

definition IgnorePathNotAbsolute :: error where
  "IgnorePathNotAbsolute =
     New ''template: all paths in ignore array must start with a forward slash''"

definition IgnoreEndpointConflict :: error where
  "IgnoreEndpointConflict = New ''template: path defined both in ignore and requests''"

subsection \<open>Library functions the package calls\<close>

text \<open>
  \<open>strings.Trim(s, cutset)\<close> for a cutset of ASCII bytes: the leading and the trailing
  bytes of \<open>s\<close> that occur in the cutset are removed. The package calls it with the
  cutset \<open>" "\<close> only.
\<close>

definition Trim :: "string \<Rightarrow> string \<Rightarrow> string" where
  "Trim s cutset =
     rev (dropWhile (\<lambda>c. c \<in> set cutset) (rev (dropWhile (\<lambda>c. c \<in> set cutset) s)))"

text \<open>
  Modelled from the spec: \<open>slice.RemoveDuplicateValues\<close> of the package
  \<open>internal/slice\<close>, whose file is not among the sources. The specification describes
  it as order-preserving de-duplication; it is written as the first-occurrence loop
  (a map of seen keys, a list of kept entries) that \<open>IDUnique\<close> and
  \<open>EndpointUnique\<close> spell out.
\<close>

fun RemoveDuplicateValues_loop ::
  "string list \<Rightarrow> (string \<rightharpoonup> bool) \<Rightarrow> string list \<Rightarrow> string list" where
  "RemoveDuplicateValues_loop [] keys list = list"
| "RemoveDuplicateValues_loop (entry # rest) keys list =
     (if keys entry = None
      then RemoveDuplicateValues_loop rest (keys(entry \<mapsto> True)) (list @ [entry])
      else RemoveDuplicateValues_loop rest keys list)"

definition RemoveDuplicateValues :: "string list \<Rightarrow> string list" where
  "RemoveDuplicateValues strSlice = RemoveDuplicateValues_loop strSlice Map.empty []"

subsection \<open>Uniqueness checks\<close>

text \<open>
  The loop of \<open>IDUnique\<close>: \<open>keys\<close> is the map of the ids seen, \<open>list\<close> the ids kept;
  an entry whose id is not yet a key is recorded and appended.
\<close>

fun IDUnique_loop ::
  "Request list \<Rightarrow> (string \<rightharpoonup> bool) \<Rightarrow> string list \<Rightarrow> string list" where
  "IDUnique_loop [] keys list = list"
| "IDUnique_loop (entry # rest) keys list =
     (if keys (ID entry) = None
      then IDUnique_loop rest (keys(ID entry \<mapsto> True)) (list @ [ID entry])
      else IDUnique_loop rest keys list)"

definition IDUnique :: "Template \<Rightarrow> bool" where
  "IDUnique tmpl =
     (if Type tmpl = ''raw''
      then length (Requests tmpl) = length (IDUnique_loop (Requests tmpl) Map.empty [])
      else True)"

fun EndpointUnique_loop ::
  "Request list \<Rightarrow> (string \<rightharpoonup> bool) \<Rightarrow> string list \<Rightarrow> string list" where
  "EndpointUnique_loop [] keys list = list"
| "EndpointUnique_loop (entry # rest) keys list =
     (if keys (Endpoint entry) = None
      then EndpointUnique_loop rest (keys(Endpoint entry \<mapsto> True)) (list @ [Endpoint entry])
      else EndpointUnique_loop rest keys list)"

definition EndpointUnique :: "Template \<Rightarrow> bool" where
  "EndpointUnique tmpl =
     (if Type tmpl = ''raw''
      then length (Requests tmpl) = length (EndpointUnique_loop (Requests tmpl) Map.empty [])
      else True)"

subsection \<open>The default request\<close>

text \<open>The loop of \<open>MissingTemplateDefault\<close> carries the variable \<open>missing\<close>.\<close>

fun MissingTemplateDefault_loop :: "Request list \<Rightarrow> bool \<Rightarrow> bool" where
  "MissingTemplateDefault_loop [] missing = missing"
| "MissingTemplateDefault_loop (entry # rest) missing =
     MissingTemplateDefault_loop rest (if ID entry = ''default'' then False else missing)"

definition MissingTemplateDefault :: "Template \<Rightarrow> bool" where
  "MissingTemplateDefault tmpl =
     (if Type tmpl = ''raw''
      then MissingTemplateDefault_loop (Requests tmpl) True
      else False)"

text \<open>
  The loop of \<open>Default\<close> returns from inside: \<open>Some entry\<close> is that return,
  \<open>None\<close> the loop running to its end.
\<close>

fun Default_loop :: "Request list \<Rightarrow> Request option" where
  "Default_loop [] = None"
| "Default_loop (entry # rest) =
     (if ID entry = ''default'' then Some entry else Default_loop rest)"

definition Default :: "Template \<Rightarrow> Request" where
  "Default tmpl =
     (if Type tmpl = ''raw''
      then (case Default_loop (Requests tmpl) of
              Some entry \<Rightarrow> entry
            | None \<Rightarrow> zero_Request)
      else zero_Request)"

fun HTTPMethodsAsString_loop :: "HTTPMethod list \<Rightarrow> string list \<Rightarrow> string list" where
  "HTTPMethodsAsString_loop [] result = result"
| "HTTPMethodsAsString_loop (method # rest) result =
     HTTPMethodsAsString_loop rest (result @ [string_of method])"

definition HTTPMethodsAsString :: "HTTPMethod list \<Rightarrow> string list" where
  "HTTPMethodsAsString methods = HTTPMethodsAsString_loop methods []"

subsection \<open>Field checks\<close>

fun CheckRequests_loop :: "Request list \<Rightarrow> outcome" where
  "CheckRequests_loop [] = Success"
| "CheckRequests_loop (entry # rest) =
     (if Trim (ID entry) '' '' = [] then Failure (New ''template: missing id in request'')
      else if ID entry \<noteq> ''default'' then
        (if Trim (Endpoint entry) '' '' = [] then
           Failure (New (''template: missing endpoint in request with id '' @ ID entry))
         else if length (Methods entry) = 0 then
           Failure (New (''template: missing methods in request with id '' @ ID entry))
         else if Trim (ResponseType entry) '' '' = [] then
           Failure (New (''template: missing response type in request with id '' @ ID entry))
         else if Trim (ContentType entry) '' '' = [] then
           Failure (New (''template: missing content type in request with id '' @ ID entry))
         else if Trim (Content entry) '' '' = [] then
           Failure (New (''template: missing content in request with id '' @ ID entry))
         else CheckRequests_loop rest)
      else CheckRequests_loop rest)"

definition CheckRequests :: "Template \<Rightarrow> outcome" where
  "CheckRequests tmpl = CheckRequests_loop (Requests tmpl)"

definition CheckDefaultRequest :: "Template \<Rightarrow> outcome" where
  "CheckDefaultRequest tmpl =
     (let entry = Default tmpl in
      if Trim (ResponseType entry) '' '' = [] then
        Failure (New ''template: missing response type in default request'')
      else if Trim (ContentType entry) '' '' = [] then
        Failure (New ''template: missing content type in default request'')
      else if Trim (Content entry) '' '' = [] then
        Failure (New ''template: missing content in default request'')
      else Success)"

subsection \<open>The ignore array\<close>

text \<open>
  The first loop of \<open>CheckIgnore\<close> reads \<open>path[0]\<close>: on the empty string the index is
  out of range and the program panics. \<open>Some r\<close> is the loop leaving the function with
  \<open>r\<close>, \<open>None\<close> the loop running to its end.
\<close>

fun CheckIgnore_slash_loop :: "string list \<Rightarrow> outcome option" where
  "CheckIgnore_slash_loop [] = None"
| "CheckIgnore_slash_loop (path # rest) =
     (case path of
        [] \<Rightarrow> Some Fault
      | c # _ \<Rightarrow>
          (if c \<noteq> CHR ''/'' then
             Some (Failure
               (New ''template: all paths in ignore array must start with a forward slash''))
           else CheckIgnore_slash_loop rest))"

fun CheckIgnore_request_loop :: "string \<Rightarrow> Request list \<Rightarrow> outcome option" where
  "CheckIgnore_request_loop ignoreElem [] = None"
| "CheckIgnore_request_loop ignoreElem (request # rest) =
     (if ignoreElem = Endpoint request then
        Some (Failure (New ''template: path defined both in ignore and requests''))
      else CheckIgnore_request_loop ignoreElem rest)"

fun CheckIgnore_endpoint_loop :: "string list \<Rightarrow> Request list \<Rightarrow> outcome option" where
  "CheckIgnore_endpoint_loop [] requests = None"
| "CheckIgnore_endpoint_loop (ignoreElem # rest) requests =
     (case CheckIgnore_request_loop ignoreElem requests of
        Some r \<Rightarrow> Some r
      | None \<Rightarrow> CheckIgnore_endpoint_loop rest requests)"

definition CheckIgnore :: "Template \<Rightarrow> outcome" where
  "CheckIgnore tmpl =
     (let input = Ignore tmpl in
      if length input = 0 then Success
      else if length input \<noteq> length (RemoveDuplicateValues input) then
        Failure (New ''template: duplicate paths in ignore array'')
      else
        (case CheckIgnore_slash_loop input of
           Some r \<Rightarrow> r
         | None \<Rightarrow>
             (case CheckIgnore_endpoint_loop input (Requests tmpl) of
                Some r \<Rightarrow> r
              | None \<Rightarrow> Success)))"

subsection \<open>Template checks\<close>

definition CheckShodanTemplate :: "Template \<Rightarrow> outcome" where
  "CheckShodanTemplate tmpl =
     (if IP tmpl \<noteq> [] then Failure (New ''template: ip is mandatory'') else Success)"

definition CheckRawTeplate :: "Template \<Rightarrow> outcome" where
  "CheckRawTeplate tmpl =
     (if \<not> IDUnique tmpl then Failure (New ''template: request IDs are not unique'')
      else if \<not> EndpointUnique tmpl then
        Failure (New ''template: request endpoints are not unique'')
      else if MissingTemplateDefault tmpl then
        Failure (New ''template: missing default request'')
      else
        (case CheckRequests tmpl of
           Success \<Rightarrow>
             (case CheckDefaultRequest tmpl of
                Success \<Rightarrow>
                  (case CheckIgnore tmpl of
                     Success \<Rightarrow> Success
                   | err \<Rightarrow> err)
              | err \<Rightarrow> err)
         | err \<Rightarrow> err))"

definition CheckTemplate :: "Template \<Rightarrow> outcome" where
  "CheckTemplate tmpl =
     (if Type tmpl = [] then Failure (New ''template: missing template type'')
      else if Type tmpl = ''raw'' then CheckRawTeplate tmpl
      else if Type tmpl = ''shodan'' then CheckShodanTemplate tmpl
      else Success)"

subsection \<open>Example templates\<close>

text \<open>
  Concrete templates used to evaluate the checks. \<open>default_rule\<close> is the default rule of
  the specification's test scenario: only the three fields a default rule needs.
\<close>

definition default_rule :: Request where
  "default_rule =
     \<lparr>ID = ''default'', Methods = [], Endpoint = [], ResponseType = ''raw'',
      ContentType = ''text/plain'', Content = ''hi''\<rparr>"

definition login_rule :: Request where
  "login_rule =
     \<lparr>ID = ''login'', Methods = [MethodGet, MethodPost], Endpoint = ''/login'',
      ResponseType = ''raw'', ContentType = ''text/html'', Content = ''welcome''\<rparr>"

definition good_template :: Template where
  "good_template =
     \<lparr>Type = ''raw'', Requests = [login_rule, default_rule], Ignore = [''/admin''], IP = []\<rparr>"

text \<open>Two default rules: the ids repeat, and so do the (empty) endpoints.\<close>

definition duplicate_id_template :: Template where
  "duplicate_id_template =
     \<lparr>Type = ''raw'', Requests = [default_rule, default_rule], Ignore = [], IP = []\<rparr>"

text \<open>A complete template but for the id of its first rule, which is one space.\<close>

definition blank_id_template :: Template where
  "blank_id_template =
     \<lparr>Type = ''raw'', Requests = [login_rule\<lparr>ID := '' ''\<rparr>, default_rule], Ignore = [], IP = []\<rparr>"

subsection \<open>Predicates of the specification\<close>

text \<open>
  A request is complete when its id is not blank and, unless it is the default request,
  its endpoint, response type, content type and content are not blank and its methods are
  not empty. Blank means: empty after \<open>strings.Trim(s, " ")\<close>.
\<close>

definition request_complete :: "Request \<Rightarrow> bool" where
  "request_complete entry =
     (Trim (ID entry) '' '' \<noteq> [] \<and>
      (ID entry \<noteq> ''default'' \<longrightarrow>
         Trim (Endpoint entry) '' '' \<noteq> [] \<and> Methods entry \<noteq> [] \<and>
         Trim (ResponseType entry) '' '' \<noteq> [] \<and> Trim (ContentType entry) '' '' \<noteq> [] \<and>
         Trim (Content entry) '' '' \<noteq> []))"

text \<open>
  The conditions under which a raw template is said to pass validation: \<open>raw_valid_stated\<close>
  lists pairwise distinct ids, pairwise distinct endpoints, exactly one rule of id
  \<open>default\<close>, the five fields of every other rule, the three fields of the default rule,
  and an ignore list that, if not empty, has no duplicate, only entries that start with a
  slash and no endpoint of a rule. \<open>raw_valid\<close> adds that no id is blank.
\<close>

definition raw_valid_stated :: "Template \<Rightarrow> bool" where
  "raw_valid_stated tmpl =
     (distinct (map ID (Requests tmpl)) \<and>
      distinct (map Endpoint (Requests tmpl)) \<and>
      length (filter (\<lambda>r. ID r = ''default'') (Requests tmpl)) = 1 \<and>
      (\<forall>r\<in>set (Requests tmpl). ID r \<noteq> ''default'' \<longrightarrow>
         Trim (Endpoint r) '' '' \<noteq> [] \<and> Methods r \<noteq> [] \<and>
         Trim (ResponseType r) '' '' \<noteq> [] \<and> Trim (ContentType r) '' '' \<noteq> [] \<and>
         Trim (Content r) '' '' \<noteq> []) \<and>
      (\<forall>r\<in>set (Requests tmpl). ID r = ''default'' \<longrightarrow>
         Trim (ResponseType r) '' '' \<noteq> [] \<and> Trim (ContentType r) '' '' \<noteq> [] \<and>
         Trim (Content r) '' '' \<noteq> []) \<and>
      (Ignore tmpl \<noteq> [] \<longrightarrow>
         distinct (Ignore tmpl) \<and>
         (\<forall>p\<in>set (Ignore tmpl). p \<noteq> [] \<and> hd p = CHR ''/'') \<and>
         (\<forall>p\<in>set (Ignore tmpl). \<forall>r\<in>set (Requests tmpl). p \<noteq> Endpoint r)))"

definition raw_valid :: "Template \<Rightarrow> bool" where
  "raw_valid tmpl =
     (raw_valid_stated tmpl \<and> (\<forall>r\<in>set (Requests tmpl). Trim (ID r) '' '' \<noteq> []))"

text \<open>
  The six checks of a raw template in the order of the specification, each as a function
  from the template to its own outcome.
\<close>

definition raw_checks :: "(Template \<Rightarrow> outcome) list" where
  "raw_checks =
     [\<lambda>tmpl. if IDUnique tmpl then Success else Failure DuplicateID,
      \<lambda>tmpl. if EndpointUnique tmpl then Success else Failure DuplicateEndpoint,
      \<lambda>tmpl. if MissingTemplateDefault tmpl then Failure MissingDefault else Success,
      CheckRequests,
      CheckDefaultRequest,
      CheckIgnore]"

section \<open>Properties\<close>

subsection \<open>Dispatch on the template type\<close>

text \<open>
  C4. A template whose type is non-empty and neither \<open>raw\<close> nor \<open>shodan\<close> passes
  \<open>CheckTemplate\<close> whatever its requests, ignore list and ip are; a template whose type is
  the empty string fails with the missing-type error.
\<close>

theorem CheckTemplate_dispatch:
  "(Type tmpl \<noteq> [] \<and> Type tmpl \<noteq> ''raw'' \<and> Type tmpl \<noteq> ''shodan''
      \<longrightarrow> CheckTemplate tmpl = Success) \<and>
   (Type tmpl = [] \<longrightarrow> CheckTemplate tmpl = Failure MissingType)"
  by (simp add: CheckTemplate_def MissingType_def)

theorem CheckTemplate_dispatch_witness:
  "CheckTemplate (good_template\<lparr>Type := ''http'', Ignore := [[]], IP := ''10.0.0.1''\<rparr>) = Success \<and>
   CheckTemplate (good_template\<lparr>Type := []\<rparr>) = Failure MissingType"
  using CheckTemplate_dispatch [of "good_template\<lparr>Type := ''http'', Ignore := [[]], IP := ''10.0.0.1''\<rparr>"]
    CheckTemplate_dispatch [of "good_template\<lparr>Type := []\<rparr>"]
  by simp

text \<open>
  C2. For a template of type \<open>shodan\<close>, \<open>CheckTemplate\<close> is \<open>CheckShodanTemplate\<close>; it
  succeeds exactly when the ip is the empty string, fails with the error "ip is mandatory"
  when the ip is non-empty, and gives the same result on any two shodan templates with the
  same ip: the requests and the ignore list are not read.
\<close>

theorem CheckTemplate_shodan:
  assumes "Type tmpl = ''shodan''"
  shows "CheckTemplate tmpl = CheckShodanTemplate tmpl \<and>
    (CheckTemplate tmpl = Success) = (IP tmpl = []) \<and>
    (IP tmpl \<noteq> [] \<longrightarrow> CheckTemplate tmpl = Failure MissingIP) \<and>
    (\<forall>tmpl'. Type tmpl' = ''shodan'' \<and> IP tmpl' = IP tmpl
       \<longrightarrow> CheckTemplate tmpl' = CheckTemplate tmpl)"
  using assms by (simp add: CheckTemplate_def CheckShodanTemplate_def MissingIP_def)

theorem CheckTemplate_shodan_witness:
  "CheckTemplate \<lparr>Type = ''shodan'', Requests = [], Ignore = [], IP = ''8.8.8.8''\<rparr>
     = Failure MissingIP \<and>
   CheckTemplate \<lparr>Type = ''shodan'', Requests = [login_rule, login_rule], Ignore = [[]], IP = ''8.8.8.8''\<rparr>
     = CheckTemplate \<lparr>Type = ''shodan'', Requests = [], Ignore = [], IP = ''8.8.8.8''\<rparr>"
proof -
  let ?t = "\<lparr>Type = ''shodan'', Requests = [], Ignore = [], IP = ''8.8.8.8''\<rparr>"
  have "Type ?t = ''shodan''" by simp
  from CheckTemplate_shodan [OF this] show ?thesis
    by (simp add: CheckTemplate_def CheckShodanTemplate_def MissingIP_def)
qed

subsection \<open>The default request and the method names\<close>

lemma Default_loop_None: "(Default_loop rs = None) = (\<forall>r\<in>set rs. ID r \<noteq> ''default'')"
  by (induction rs) simp_all

lemma Default_loop_first:
  "i < length rs \<Longrightarrow> ID (rs ! i) = ''default'' \<Longrightarrow> \<forall>j<i. ID (rs ! j) \<noteq> ''default'' \<Longrightarrow>
   Default_loop rs = Some (rs ! i)"
proof (induction rs arbitrary: i)
  case Nil
  then show ?case by simp
next
  case (Cons entry rest)
  show ?case
  proof (cases i)
    case 0
    with Cons.prems show ?thesis by simp
  next
    case (Suc k)
    from Cons.prems(3) Suc have head: "ID entry \<noteq> ''default''" by force
    from Cons.prems Suc have "k < length rest" "ID (rest ! k) = ''default''" by simp_all
    moreover have "\<forall>j<k. ID (rest ! j) \<noteq> ''default''"
    proof (intro allI impI)
      fix j assume "j < k"
      then have "Suc j < i" using Suc by simp
      with Cons.prems(3) have "ID ((entry # rest) ! Suc j) \<noteq> ''default''" by blast
      then show "ID (rest ! j) \<noteq> ''default''" by simp
    qed
    ultimately have "Default_loop rest = Some (rest ! k)" by (rule Cons.IH)
    with head Suc show ?thesis by simp
  qed
qed

text \<open>
  C7. On a template of type \<open>raw\<close>, \<open>Default\<close> returns the first request, in declared
  order, whose id is \<open>default\<close>, and the zero request when there is none; on a template of
  any other type it returns the zero request, whatever the requests are.
\<close>

theorem Default_first_match:
  "(Type tmpl = ''raw'' \<longrightarrow>
      (\<forall>i<length (Requests tmpl).
          ID (Requests tmpl ! i) = ''default'' \<and> (\<forall>j<i. ID (Requests tmpl ! j) \<noteq> ''default'')
          \<longrightarrow> Default tmpl = Requests tmpl ! i) \<and>
      ((\<forall>r\<in>set (Requests tmpl). ID r \<noteq> ''default'') \<longrightarrow> Default tmpl = zero_Request)) \<and>
   (Type tmpl \<noteq> ''raw'' \<longrightarrow> Default tmpl = zero_Request)"
proof (intro conjI impI allI)
  fix i
  assume raw: "Type tmpl = ''raw''" and i: "i < length (Requests tmpl)"
    and m: "ID (Requests tmpl ! i) = ''default'' \<and> (\<forall>j<i. ID (Requests tmpl ! j) \<noteq> ''default'')"
  from i m have "Default_loop (Requests tmpl) = Some (Requests tmpl ! i)"
    by (simp add: Default_loop_first)
  with raw show "Default tmpl = Requests tmpl ! i" by (simp add: Default_def)
next
  assume raw: "Type tmpl = ''raw''" and none: "\<forall>r\<in>set (Requests tmpl). ID r \<noteq> ''default''"
  from none have "Default_loop (Requests tmpl) = None" by (simp add: Default_loop_None)
  with raw show "Default tmpl = zero_Request" by (simp add: Default_def)
next
  assume "Type tmpl \<noteq> ''raw''"
  then show "Default tmpl = zero_Request" by (simp add: Default_def)
qed

theorem Default_first_match_witness:
  "Default (good_template\<lparr>Requests := [login_rule, default_rule, default_rule\<lparr>Content := ''second''\<rparr>]\<rparr>)
     = default_rule \<and>
   Default (good_template\<lparr>Requests := [login_rule]\<rparr>) = zero_Request \<and>
   Default (good_template\<lparr>Type := ''shodan''\<rparr>) = zero_Request"
  using Default_first_match [of "good_template\<lparr>Requests := [login_rule, default_rule, default_rule\<lparr>Content := ''second''\<rparr>]\<rparr>"]
    Default_first_match [of "good_template\<lparr>Requests := [login_rule]\<rparr>"]
    Default_first_match [of "good_template\<lparr>Type := ''shodan''\<rparr>"]
  by (simp add: good_template_def login_rule_def default_rule_def Default_def)

text \<open>
  C9. Called on its own, \<open>CheckDefaultRequest\<close> returns the error "missing response type
  in default request" on every template whose type is not \<open>raw\<close> (a shodan template among
  them) and on every raw template without a request of id \<open>default\<close>: \<open>Default\<close> yields
  the zero request there, whose response type is blank.
\<close>

theorem CheckDefaultRequest_without_default:
  assumes "Type tmpl \<noteq> ''raw'' \<or> (\<forall>r\<in>set (Requests tmpl). ID r \<noteq> ''default'')"
  shows "Default tmpl = zero_Request \<and>
         CheckDefaultRequest tmpl = Failure MissingDefaultResponseType"
proof -
  have z: "Default tmpl = zero_Request"
  proof (cases "Type tmpl = ''raw''")
    case True
    with assms have "Default_loop (Requests tmpl) = None" by (simp add: Default_loop_None)
    with True show ?thesis by (simp add: Default_def)
  next
    case False
    then show ?thesis by (simp add: Default_def)
  qed
  have "Trim (ResponseType zero_Request) '' '' = []"
    by (simp add: zero_Request_def Trim_def)
  with z show ?thesis
    by (simp add: CheckDefaultRequest_def MissingDefaultResponseType_def)
qed

theorem CheckDefaultRequest_without_default_witness:
  "CheckDefaultRequest (good_template\<lparr>Type := ''shodan'', IP := ''8.8.8.8''\<rparr>)
     = Failure MissingDefaultResponseType \<and>
   CheckDefaultRequest (good_template\<lparr>Requests := [login_rule]\<rparr>)
     = Failure MissingDefaultResponseType"
proof -
  have a: "Type (good_template\<lparr>Type := ''shodan'', IP := ''8.8.8.8''\<rparr>) \<noteq> ''raw'' \<or>
      (\<forall>r\<in>set (Requests (good_template\<lparr>Type := ''shodan'', IP := ''8.8.8.8''\<rparr>)). ID r \<noteq> ''default'')"
    by simp
  have b: "Type (good_template\<lparr>Requests := [login_rule]\<rparr>) \<noteq> ''raw'' \<or>
      (\<forall>r\<in>set (Requests (good_template\<lparr>Requests := [login_rule]\<rparr>)). ID r \<noteq> ''default'')"
    by (simp add: login_rule_def)
  from CheckDefaultRequest_without_default [OF a] CheckDefaultRequest_without_default [OF b]
  show ?thesis by simp
qed

lemma HTTPMethodsAsString_loop_map:
  "HTTPMethodsAsString_loop methods result = result @ map string_of methods"
  by (induction methods arbitrary: result) simp_all

text \<open>
  C8. \<open>HTTPMethodsAsString\<close> returns a list as long as its argument whose element at each
  position is the string of the method at that position: the order is kept, and no method
  is checked or dropped, whatever its string is.
\<close>

theorem HTTPMethodsAsString_pointwise:
  "length (HTTPMethodsAsString methods) = length methods \<and>
   (\<forall>i<length methods. HTTPMethodsAsString methods ! i = string_of (methods ! i))"
  by (simp add: HTTPMethodsAsString_def HTTPMethodsAsString_loop_map)

theorem HTTPMethodsAsString_pointwise_witness:
  "HTTPMethodsAsString [MethodPost, HTTPMethod ''bogus'', MethodGet, MethodPost]
     = [''POST'', ''bogus'', ''GET'', ''POST'']"
proof -
  let ?ms = "[MethodPost, HTTPMethod ''bogus'', MethodGet, MethodPost]"
  have "length (HTTPMethodsAsString ?ms) = length ?ms \<and>
   (\<forall>i<length ?ms. HTTPMethodsAsString ?ms ! i = string_of (?ms ! i))"
    by (rule HTTPMethodsAsString_pointwise)
  then show ?thesis
    by (simp add: HTTPMethodsAsString_def MethodPost_def MethodGet_def)
qed

subsection \<open>Completeness of the requests\<close>

lemma CheckRequests_loop_step:
  "request_complete entry \<Longrightarrow> CheckRequests_loop (entry # rest) = CheckRequests_loop rest"
  by (simp add: request_complete_def)

lemma CheckRequests_loop_incomplete:
  "\<not> request_complete entry \<Longrightarrow> CheckRequests_loop (entry # rest) \<noteq> Success"
  by (auto simp: request_complete_def)

lemma CheckRequests_loop_no_fault: "CheckRequests_loop rs \<noteq> Fault"
  by (induction rs) simp_all

lemma CheckRequests_loop_Success:
  "(CheckRequests_loop rs = Success) = (\<forall>entry\<in>set rs. request_complete entry)"
proof (induction rs)
  case Nil
  show ?case by simp
next
  case (Cons entry rest)
  show ?case
  proof (cases "request_complete entry")
    case True
    with Cons.IH show ?thesis by (simp only: CheckRequests_loop_step) simp
  next
    case False
    then have "CheckRequests_loop (entry # rest) \<noteq> Success"
      by (rule CheckRequests_loop_incomplete)
    with False show ?thesis by simp
  qed
qed

lemma CheckRequests_loop_skip:
  "i \<le> length rs \<Longrightarrow> \<forall>j<i. request_complete (rs ! j) \<Longrightarrow>
   CheckRequests_loop rs = CheckRequests_loop (drop i rs)"
proof (induction rs arbitrary: i)
  case Nil
  then show ?case by simp
next
  case (Cons entry rest)
  show ?case
  proof (cases i)
    case 0
    then show ?thesis by simp
  next
    case (Suc k)
    from Cons.prems(2) Suc have "request_complete ((entry # rest) ! 0)" by blast
    then have head: "request_complete entry" by simp
    have "\<forall>j<k. request_complete (rest ! j)"
    proof (intro allI impI)
      fix j assume "j < k"
      then have "Suc j < i" using Suc by simp
      with Cons.prems(2) have "request_complete ((entry # rest) ! Suc j)" by blast
      then show "request_complete (rest ! j)" by simp
    qed
    moreover from Cons.prems(1) Suc have "k \<le> length rest" by simp
    ultimately have "CheckRequests_loop rest = CheckRequests_loop (drop k rest)"
      by (rule Cons.IH [rotated])
    with head Suc show ?thesis by (simp only: CheckRequests_loop_step) simp
  qed
qed

lemma CheckRequests_at:
  assumes "i < length (Requests tmpl)" and "\<forall>j<i. request_complete (Requests tmpl ! j)"
  shows "CheckRequests tmpl =
         CheckRequests_loop (Requests tmpl ! i # drop (Suc i) (Requests tmpl))"
proof -
  from assms have "CheckRequests_loop (Requests tmpl) = CheckRequests_loop (drop i (Requests tmpl))"
    by (intro CheckRequests_loop_skip) simp_all
  with assms(1) show ?thesis by (simp add: CheckRequests_def Cons_nth_drop_Suc)
qed

text \<open>
  C6. \<open>CheckRequests\<close> scans the requests in declared order and stops at the first one
  that is not complete: it succeeds exactly when every request is complete, and at the
  first incomplete request it fails with the missing-id error when the id is blank, and,
  for a request other than the default one, with the error of the first blank or empty
  field in the order endpoint, methods, response type, content type, content.
\<close>

theorem CheckRequests_first_violation:
  "(CheckRequests tmpl = Success) = (\<forall>entry\<in>set (Requests tmpl). request_complete entry) \<and>
   (\<forall>i<length (Requests tmpl). (\<forall>j<i. request_complete (Requests tmpl ! j)) \<longrightarrow>
      (let entry = Requests tmpl ! i in
       (Trim (ID entry) '' '' = [] \<longrightarrow> CheckRequests tmpl = Failure MissingID) \<and>
       (Trim (ID entry) '' '' \<noteq> [] \<and> ID entry \<noteq> ''default'' \<longrightarrow>
          (Trim (Endpoint entry) '' '' = [] \<longrightarrow>
             CheckRequests tmpl = Failure (MissingEndpoint (ID entry))) \<and>
          (Trim (Endpoint entry) '' '' \<noteq> [] \<and> Methods entry = [] \<longrightarrow>
             CheckRequests tmpl = Failure (MissingMethods (ID entry))) \<and>
          (Trim (Endpoint entry) '' '' \<noteq> [] \<and> Methods entry \<noteq> [] \<and>
           Trim (ResponseType entry) '' '' = [] \<longrightarrow>
             CheckRequests tmpl = Failure (MissingResponseType (ID entry))) \<and>
          (Trim (Endpoint entry) '' '' \<noteq> [] \<and> Methods entry \<noteq> [] \<and>
           Trim (ResponseType entry) '' '' \<noteq> [] \<and> Trim (ContentType entry) '' '' = [] \<longrightarrow>
             CheckRequests tmpl = Failure (MissingContentType (ID entry))) \<and>
          (Trim (Endpoint entry) '' '' \<noteq> [] \<and> Methods entry \<noteq> [] \<and>
           Trim (ResponseType entry) '' '' \<noteq> [] \<and> Trim (ContentType entry) '' '' \<noteq> [] \<and>
           Trim (Content entry) '' '' = [] \<longrightarrow>
             CheckRequests tmpl = Failure (MissingContent (ID entry))))))"
proof (intro conjI allI impI)
  show "(CheckRequests tmpl = Success) = (\<forall>entry\<in>set (Requests tmpl). request_complete entry)"
    by (simp add: CheckRequests_def CheckRequests_loop_Success)
next
  fix i
  assume "i < length (Requests tmpl)" and "\<forall>j<i. request_complete (Requests tmpl ! j)"
  then have at: "CheckRequests tmpl =
      CheckRequests_loop (Requests tmpl ! i # drop (Suc i) (Requests tmpl))"
    by (rule CheckRequests_at)
  show "let entry = Requests tmpl ! i in
       (Trim (ID entry) '' '' = [] \<longrightarrow> CheckRequests tmpl = Failure MissingID) \<and>
       (Trim (ID entry) '' '' \<noteq> [] \<and> ID entry \<noteq> ''default'' \<longrightarrow>
          (Trim (Endpoint entry) '' '' = [] \<longrightarrow>
             CheckRequests tmpl = Failure (MissingEndpoint (ID entry))) \<and>
          (Trim (Endpoint entry) '' '' \<noteq> [] \<and> Methods entry = [] \<longrightarrow>
             CheckRequests tmpl = Failure (MissingMethods (ID entry))) \<and>
          (Trim (Endpoint entry) '' '' \<noteq> [] \<and> Methods entry \<noteq> [] \<and>
           Trim (ResponseType entry) '' '' = [] \<longrightarrow>
             CheckRequests tmpl = Failure (MissingResponseType (ID entry))) \<and>
          (Trim (Endpoint entry) '' '' \<noteq> [] \<and> Methods entry \<noteq> [] \<and>
           Trim (ResponseType entry) '' '' \<noteq> [] \<and> Trim (ContentType entry) '' '' = [] \<longrightarrow>
             CheckRequests tmpl = Failure (MissingContentType (ID entry))) \<and>
          (Trim (Endpoint entry) '' '' \<noteq> [] \<and> Methods entry \<noteq> [] \<and>
           Trim (ResponseType entry) '' '' \<noteq> [] \<and> Trim (ContentType entry) '' '' \<noteq> [] \<and>
           Trim (Content entry) '' '' = [] \<longrightarrow>
             CheckRequests tmpl = Failure (MissingContent (ID entry))))"
    unfolding at Let_def
    by (simp add: MissingID_def MissingEndpoint_def MissingMethods_def
        MissingResponseType_def MissingContentType_def MissingContent_def)
qed

theorem CheckRequests_first_violation_witness:
  "request_complete login_rule \<and> request_complete default_rule \<and>
   CheckRequests (good_template\<lparr>Requests :=
       [login_rule, default_rule, login_rule\<lparr>ID := ''x'', Endpoint := ''/x'', Methods := []\<rparr>,
        login_rule\<lparr>ID := '' ''\<rparr>]\<rparr>)
     = Failure (MissingMethods ''x'')"
proof -
  let ?t = "good_template\<lparr>Requests :=
       [login_rule, default_rule, login_rule\<lparr>ID := ''x'', Endpoint := ''/x'', Methods := []\<rparr>,
        login_rule\<lparr>ID := '' ''\<rparr>]\<rparr>"
  have c1: "request_complete login_rule"
    by (simp add: request_complete_def login_rule_def Trim_def MethodGet_def)
  have c2: "request_complete default_rule"
    by (simp add: request_complete_def default_rule_def Trim_def)
  have len: "2 < length (Requests ?t)" by simp
  have pre: "\<forall>j<2. request_complete (Requests ?t ! j)"
  proof (intro allI impI)
    fix j :: nat
    assume "j < 2"
    then have "j = 0 \<or> j = 1" by arith
    then show "request_complete (Requests ?t ! j)" using c1 c2 by auto
  qed
  from CheckRequests_first_violation [of ?t, THEN conjunct2, THEN spec, of 2, THEN mp, OF len, THEN mp, OF pre]
  show ?thesis using c1 c2
    by (simp add: Let_def login_rule_def Trim_def)
qed

subsection \<open>The first-occurrence loops\<close>

lemma IDUnique_loop_le: "length (IDUnique_loop rs keys list) \<le> length list + length rs"
proof (induction rs arbitrary: keys list)
  case Nil
  show ?case by simp
next
  case (Cons entry rest)
  have a: "length (IDUnique_loop rest (keys(ID entry \<mapsto> True)) (list @ [ID entry]))
      \<le> length (list @ [ID entry]) + length rest"
    by (rule Cons.IH)
  have b: "length (IDUnique_loop rest keys list) \<le> length list + length rest"
    by (rule Cons.IH)
  from a b show ?case by simp
qed

lemma IDUnique_loop_full:
  "dom keys = set list \<Longrightarrow>
   (length (IDUnique_loop rs keys list) = length list + length rs) =
   (distinct (map ID rs) \<and> set (map ID rs) \<inter> set list = {})"
proof (induction rs arbitrary: keys list)
  case Nil
  then show ?case by simp
next
  case (Cons entry rest)
  show ?case
  proof (cases "keys (ID entry) = None")
    case True
    then have fresh: "ID entry \<notin> set list" using Cons.prems by (auto simp: domIff)
    have inv: "dom (keys(ID entry \<mapsto> True)) = set (list @ [ID entry])"
      using Cons.prems by simp
    have step: "IDUnique_loop (entry # rest) keys list =
        IDUnique_loop rest (keys(ID entry \<mapsto> True)) (list @ [ID entry])"
      using True by simp
    have ih: "(length (IDUnique_loop rest (keys(ID entry \<mapsto> True)) (list @ [ID entry]))
            = length (list @ [ID entry]) + length rest) =
          (distinct (map ID rest) \<and> set (map ID rest) \<inter> set (list @ [ID entry]) = {})"
      by (rule Cons.IH [OF inv])
    have lhs: "length list + length (entry # rest) = length (list @ [ID entry]) + length rest"
      by simp
    have rhs: "(distinct (map ID (entry # rest)) \<and> set (map ID (entry # rest)) \<inter> set list = {}) =
          (distinct (map ID rest) \<and> set (map ID rest) \<inter> set (list @ [ID entry]) = {})"
      using fresh by auto
    show ?thesis unfolding step lhs rhs by (rule ih)
  next
    case False
    then have seen: "ID entry \<in> set list" using Cons.prems by (auto simp: domIff)
    have step: "IDUnique_loop (entry # rest) keys list = IDUnique_loop rest keys list"
      using False by auto
    have "length (IDUnique_loop rest keys list) \<le> length list + length rest"
      by (rule IDUnique_loop_le)
    then have l: "length (IDUnique_loop rest keys list) \<noteq> length list + length (entry # rest)"
      by simp
    have r: "set (map ID (entry # rest)) \<inter> set list \<noteq> {}"
      using seen by auto
    show ?thesis unfolding step using l r by simp
  qed
qed

lemma IDUnique_raw:
  assumes "Type tmpl = ''raw''"
  shows "IDUnique tmpl = distinct (map ID (Requests tmpl))"
proof -
  have "dom (Map.empty :: string \<rightharpoonup> bool) = set []" by simp
  from IDUnique_loop_full [OF this, of "Requests tmpl"]
  have "(length (IDUnique_loop (Requests tmpl) Map.empty []) = length (Requests tmpl)) =
        distinct (map ID (Requests tmpl))" by simp
  moreover have "IDUnique tmpl =
      (length (IDUnique_loop (Requests tmpl) Map.empty []) = length (Requests tmpl))"
    using assms unfolding IDUnique_def by (simp add: eq_commute)
  ultimately show ?thesis by simp
qed

lemma EndpointUnique_loop_le: "length (EndpointUnique_loop rs keys list) \<le> length list + length rs"
proof (induction rs arbitrary: keys list)
  case Nil
  show ?case by simp
next
  case (Cons entry rest)
  have a: "length (EndpointUnique_loop rest (keys(Endpoint entry \<mapsto> True)) (list @ [Endpoint entry]))
      \<le> length (list @ [Endpoint entry]) + length rest"
    by (rule Cons.IH)
  have b: "length (EndpointUnique_loop rest keys list) \<le> length list + length rest"
    by (rule Cons.IH)
  from a b show ?case by simp
qed

lemma EndpointUnique_loop_full:
  "dom keys = set list \<Longrightarrow>
   (length (EndpointUnique_loop rs keys list) = length list + length rs) =
   (distinct (map Endpoint rs) \<and> set (map Endpoint rs) \<inter> set list = {})"
proof (induction rs arbitrary: keys list)
  case Nil
  then show ?case by simp
next
  case (Cons entry rest)
  show ?case
  proof (cases "keys (Endpoint entry) = None")
    case True
    then have fresh: "Endpoint entry \<notin> set list" using Cons.prems by (auto simp: domIff)
    have inv: "dom (keys(Endpoint entry \<mapsto> True)) = set (list @ [Endpoint entry])"
      using Cons.prems by simp
    have step: "EndpointUnique_loop (entry # rest) keys list =
        EndpointUnique_loop rest (keys(Endpoint entry \<mapsto> True)) (list @ [Endpoint entry])"
      using True by simp
    have ih: "(length (EndpointUnique_loop rest (keys(Endpoint entry \<mapsto> True)) (list @ [Endpoint entry]))
            = length (list @ [Endpoint entry]) + length rest) =
          (distinct (map Endpoint rest) \<and> set (map Endpoint rest) \<inter> set (list @ [Endpoint entry]) = {})"
      by (rule Cons.IH [OF inv])
    have lhs: "length list + length (entry # rest) = length (list @ [Endpoint entry]) + length rest"
      by simp
    have rhs: "(distinct (map Endpoint (entry # rest)) \<and> set (map Endpoint (entry # rest)) \<inter> set list = {}) =
          (distinct (map Endpoint rest) \<and> set (map Endpoint rest) \<inter> set (list @ [Endpoint entry]) = {})"
      using fresh by auto
    show ?thesis unfolding step lhs rhs by (rule ih)
  next
    case False
    then have seen: "Endpoint entry \<in> set list" using Cons.prems by (auto simp: domIff)
    have step: "EndpointUnique_loop (entry # rest) keys list = EndpointUnique_loop rest keys list"
      using False by auto
    have "length (EndpointUnique_loop rest keys list) \<le> length list + length rest"
      by (rule EndpointUnique_loop_le)
    then have l: "length (EndpointUnique_loop rest keys list) \<noteq> length list + length (entry # rest)"
      by simp
    have r: "set (map Endpoint (entry # rest)) \<inter> set list \<noteq> {}"
      using seen by auto
    show ?thesis unfolding step using l r by simp
  qed
qed

lemma EndpointUnique_raw:
  assumes "Type tmpl = ''raw''"
  shows "EndpointUnique tmpl = distinct (map Endpoint (Requests tmpl))"
proof -
  have "dom (Map.empty :: string \<rightharpoonup> bool) = set []" by simp
  from EndpointUnique_loop_full [OF this, of "Requests tmpl"]
  have "(length (EndpointUnique_loop (Requests tmpl) Map.empty []) = length (Requests tmpl)) =
        distinct (map Endpoint (Requests tmpl))" by simp
  moreover have "EndpointUnique tmpl =
      (length (EndpointUnique_loop (Requests tmpl) Map.empty []) = length (Requests tmpl))"
    using assms unfolding EndpointUnique_def by (simp add: eq_commute)
  ultimately show ?thesis by simp
qed

lemma RemoveDuplicateValues_loop_le: "length (RemoveDuplicateValues_loop rs keys list) \<le> length list + length rs"
proof (induction rs arbitrary: keys list)
  case Nil
  show ?case by simp
next
  case (Cons entry rest)
  have a: "length (RemoveDuplicateValues_loop rest (keys(entry \<mapsto> True)) (list @ [entry]))
      \<le> length (list @ [entry]) + length rest"
    by (rule Cons.IH)
  have b: "length (RemoveDuplicateValues_loop rest keys list) \<le> length list + length rest"
    by (rule Cons.IH)
  from a b show ?case by simp
qed

lemma RemoveDuplicateValues_loop_full:
  "dom keys = set list \<Longrightarrow>
   (length (RemoveDuplicateValues_loop rs keys list) = length list + length rs) =
   (distinct rs \<and> set rs \<inter> set list = {})"
proof (induction rs arbitrary: keys list)
  case Nil
  then show ?case by simp
next
  case (Cons entry rest)
  show ?case
  proof (cases "keys (entry) = None")
    case True
    then have fresh: "entry \<notin> set list" using Cons.prems by (auto simp: domIff)
    have inv: "dom (keys(entry \<mapsto> True)) = set (list @ [entry])"
      using Cons.prems by simp
    have step: "RemoveDuplicateValues_loop (entry # rest) keys list =
        RemoveDuplicateValues_loop rest (keys(entry \<mapsto> True)) (list @ [entry])"
      using True by simp
    have ih: "(length (RemoveDuplicateValues_loop rest (keys(entry \<mapsto> True)) (list @ [entry]))
            = length (list @ [entry]) + length rest) =
          (distinct (rest) \<and> set (rest) \<inter> set (list @ [entry]) = {})"
      by (rule Cons.IH [OF inv])
    have lhs: "length list + length (entry # rest) = length (list @ [entry]) + length rest"
      by simp
    have rhs: "(distinct ((entry # rest)) \<and> set ((entry # rest)) \<inter> set list = {}) =
          (distinct (rest) \<and> set (rest) \<inter> set (list @ [entry]) = {})"
      using fresh by auto
    show ?thesis unfolding step lhs rhs by (rule ih)
  next
    case False
    then have seen: "entry \<in> set list" using Cons.prems by (auto simp: domIff)
    have step: "RemoveDuplicateValues_loop (entry # rest) keys list = RemoveDuplicateValues_loop rest keys list"
      using False by auto
    have "length (RemoveDuplicateValues_loop rest keys list) \<le> length list + length rest"
      by (rule RemoveDuplicateValues_loop_le)
    then have l: "length (RemoveDuplicateValues_loop rest keys list) \<noteq> length list + length (entry # rest)"
      by simp
    have r: "set ((entry # rest)) \<inter> set list \<noteq> {}"
      using seen by auto
    show ?thesis unfolding step using l r by simp
  qed
qed

lemma RemoveDuplicateValues_length:
  "(length input \<noteq> length (RemoveDuplicateValues input)) = (\<not> distinct input)"
proof -
  have "dom (Map.empty :: string \<rightharpoonup> bool) = set []" by simp
  from RemoveDuplicateValues_loop_full [OF this, of input]
  have "(length (RemoveDuplicateValues_loop input Map.empty []) = length input) =
        distinct input" by simp
  then show ?thesis unfolding RemoveDuplicateValues_def by (simp add: eq_commute)
qed

subsection \<open>Presence of the default request\<close>

lemma MissingTemplateDefault_loop_iff:
  "MissingTemplateDefault_loop rs missing = (missing \<and> (\<forall>r\<in>set rs. ID r \<noteq> ''default''))"
  by (induction rs arbitrary: missing) auto

lemma MissingTemplateDefault_raw:
  "Type tmpl = ''raw'' \<Longrightarrow>
   MissingTemplateDefault tmpl = (\<forall>r\<in>set (Requests tmpl). ID r \<noteq> ''default'')"
  by (simp add: MissingTemplateDefault_def MissingTemplateDefault_loop_iff)

subsection \<open>The loops of CheckIgnore\<close>

lemma CheckIgnore_slash_loop_None:
  "(CheckIgnore_slash_loop input = None) = (\<forall>p\<in>set input. p \<noteq> [] \<and> hd p = CHR ''/'')"
  by (induction input) (simp_all split: list.split)

lemma CheckIgnore_slash_loop_not_Success: "CheckIgnore_slash_loop input \<noteq> Some Success"
  by (induction input) (simp_all split: list.split)

lemma CheckIgnore_slash_loop_Fault:
  "CheckIgnore_slash_loop input = Some Fault \<Longrightarrow> [] \<in> set input"
  by (induction input) (simp_all split: list.splits if_splits)

lemma CheckIgnore_request_loop_None:
  "(CheckIgnore_request_loop ignoreElem requests = None) =
   (\<forall>r\<in>set requests. ignoreElem \<noteq> Endpoint r)"
  by (induction requests) simp_all

lemma CheckIgnore_request_loop_Some:
  "CheckIgnore_request_loop ignoreElem requests = Some r \<Longrightarrow> r = Failure IgnoreEndpointConflict"
  by (induction requests) (simp_all add: IgnoreEndpointConflict_def split: if_splits)

lemma CheckIgnore_endpoint_loop_None:
  "(CheckIgnore_endpoint_loop input requests = None) =
   (\<forall>p\<in>set input. \<forall>r\<in>set requests. p \<noteq> Endpoint r)"
proof (induction input)
  case Nil
  show ?case by simp
next
  case (Cons ignoreElem rest)
  show ?case
  proof (cases "CheckIgnore_request_loop ignoreElem requests")
    case None
    then have "\<forall>r\<in>set requests. ignoreElem \<noteq> Endpoint r"
      by (simp add: CheckIgnore_request_loop_None)
    with None Cons.IH show ?thesis by simp
  next
    case (Some r)
    then have "\<not> (\<forall>r\<in>set requests. ignoreElem \<noteq> Endpoint r)"
      using CheckIgnore_request_loop_None [of ignoreElem requests] by simp
    with Some show ?thesis by auto
  qed
qed

lemma CheckIgnore_endpoint_loop_Some:
  "CheckIgnore_endpoint_loop input requests = Some r \<Longrightarrow> r = Failure IgnoreEndpointConflict"
  by (induction input) (auto split: option.splits dest: CheckIgnore_request_loop_Some)

lemma CheckIgnore_Success:
  "(CheckIgnore tmpl = Success) =
   (Ignore tmpl = [] \<or>
    distinct (Ignore tmpl) \<and> (\<forall>p\<in>set (Ignore tmpl). p \<noteq> [] \<and> hd p = CHR ''/'') \<and>
    (\<forall>p\<in>set (Ignore tmpl). \<forall>r\<in>set (Requests tmpl). p \<noteq> Endpoint r))"
proof (cases "Ignore tmpl = []")
  case True
  then show ?thesis by (simp add: CheckIgnore_def)
next
  case nonempty: False
  show ?thesis
  proof (cases "distinct (Ignore tmpl)")
    case False
    with nonempty show ?thesis
      by (simp add: CheckIgnore_def RemoveDuplicateValues_length)
  next
    case dist: True
    show ?thesis
    proof (cases "CheckIgnore_slash_loop (Ignore tmpl)")
      case (Some r)
      then have "r \<noteq> Success" using CheckIgnore_slash_loop_not_Success [of "Ignore tmpl"] by auto
      moreover from Some have "\<not> (\<forall>p\<in>set (Ignore tmpl). p \<noteq> [] \<and> hd p = CHR ''/'')"
        using CheckIgnore_slash_loop_None [of "Ignore tmpl"] by simp
      ultimately show ?thesis using nonempty dist Some
        by (simp add: CheckIgnore_def RemoveDuplicateValues_length)
    next
      case slash: None
      then have ok: "\<forall>p\<in>set (Ignore tmpl). p \<noteq> [] \<and> hd p = CHR ''/''"
        by (simp add: CheckIgnore_slash_loop_None)
      show ?thesis
      proof (cases "CheckIgnore_endpoint_loop (Ignore tmpl) (Requests tmpl)")
        case (Some r)
        then have "r \<noteq> Success" by (auto dest: CheckIgnore_endpoint_loop_Some)
        moreover from Some
        have "\<not> (\<forall>p\<in>set (Ignore tmpl). \<forall>r\<in>set (Requests tmpl). p \<noteq> Endpoint r)"
          using CheckIgnore_endpoint_loop_None [of "Ignore tmpl" "Requests tmpl"] by simp
        ultimately show ?thesis using nonempty dist slash Some
          by (simp add: CheckIgnore_def RemoveDuplicateValues_length)
      next
        case None
        then have "\<forall>p\<in>set (Ignore tmpl). \<forall>r\<in>set (Requests tmpl). p \<noteq> Endpoint r"
          by (simp add: CheckIgnore_endpoint_loop_None)
        with nonempty dist slash None ok show ?thesis
          by (simp add: CheckIgnore_def RemoveDuplicateValues_length)
      qed
    qed
  qed
qed

lemma CheckIgnore_in_bounds:
  assumes "\<forall>p\<in>set (Ignore tmpl). p \<noteq> []"
  shows "CheckIgnore tmpl \<noteq> Fault"
proof -
  have a: "CheckIgnore_slash_loop (Ignore tmpl) \<noteq> Some Fault"
    using assms CheckIgnore_slash_loop_Fault [of "Ignore tmpl"] by auto
  have b: "CheckIgnore_endpoint_loop (Ignore tmpl) (Requests tmpl) \<noteq> Some Fault"
    by (auto dest: CheckIgnore_endpoint_loop_Some)
  from a b show ?thesis
    by (auto simp: CheckIgnore_def Let_def split: option.splits)
qed

subsection \<open>Requests without an endpoint\<close>

text \<open>
  C10, as stated: on every raw template in which two requests have an empty endpoint,
  \<open>EndpointUnique\<close> is false and validation fails with the duplicate-endpoint error. The
  template of two default rules refutes it: both endpoints are empty, but the ids repeat
  too, and the check of the ids comes first.
\<close>

theorem empty_endpoints_counterexample:
  "Type duplicate_id_template = ''raw'' \<and>
   1 < length (Requests duplicate_id_template) \<and>
   Endpoint (Requests duplicate_id_template ! 0) = [] \<and>
   Endpoint (Requests duplicate_id_template ! 1) = [] \<and>
   \<not> EndpointUnique duplicate_id_template \<and>
   CheckTemplate duplicate_id_template = Failure DuplicateID \<and>
   CheckTemplate duplicate_id_template \<noteq> Failure DuplicateEndpoint"
  by (simp add: duplicate_id_template_def default_rule_def CheckTemplate_def
      CheckRawTeplate_def IDUnique_def EndpointUnique_def DuplicateID_def DuplicateEndpoint_def)

text \<open>
  C10, amended. On every raw template in which two requests have an empty endpoint,
  \<open>EndpointUnique\<close> is false: the empty endpoint of a default rule counts as the empty
  string. When the ids are pairwise distinct, validation fails with the duplicate-endpoint
  error, whatever the fields of the requests are; when they are not, it fails with the
  duplicate-id error.
\<close>

theorem empty_endpoints_duplicate:
  assumes "Type tmpl = ''raw''"
    and "i < j" and "j < length (Requests tmpl)"
    and "Endpoint (Requests tmpl ! i) = []" and "Endpoint (Requests tmpl ! j) = []"
  shows "\<not> EndpointUnique tmpl \<and>
    (distinct (map ID (Requests tmpl)) \<longrightarrow>
       CheckRawTeplate tmpl = Failure DuplicateEndpoint \<and>
       CheckTemplate tmpl = Failure DuplicateEndpoint) \<and>
    (\<not> distinct (map ID (Requests tmpl)) \<longrightarrow> CheckTemplate tmpl = Failure DuplicateID)"
proof -
  have "\<not> distinct (map Endpoint (Requests tmpl))"
  proof
    assume d: "distinct (map Endpoint (Requests tmpl))"
    from assms(2,3) have "i < length (map Endpoint (Requests tmpl))"
      and "j < length (map Endpoint (Requests tmpl))" and "i \<noteq> j" by simp_all
    with d have "map Endpoint (Requests tmpl) ! i \<noteq> map Endpoint (Requests tmpl) ! j"
      using nth_eq_iff_index_eq [of "map Endpoint (Requests tmpl)" i j] by blast
    with assms(2-5) show False by simp
  qed
  then have e: "\<not> EndpointUnique tmpl" using assms(1) by (simp add: EndpointUnique_raw)
  have u: "IDUnique tmpl = distinct (map ID (Requests tmpl))"
    using assms(1) by (rule IDUnique_raw)
  from e u assms(1) show ?thesis
    by (simp add: CheckTemplate_def CheckRawTeplate_def DuplicateEndpoint_def DuplicateID_def)
qed

theorem empty_endpoints_duplicate_witness:
  "CheckTemplate (good_template\<lparr>Requests :=
       [default_rule, login_rule\<lparr>Endpoint := []\<rparr>, login_rule\<lparr>ID := [], Methods := []\<rparr>]\<rparr>)
     = Failure DuplicateEndpoint"
proof -
  let ?t = "good_template\<lparr>Requests :=
       [default_rule, login_rule\<lparr>Endpoint := []\<rparr>, login_rule\<lparr>ID := [], Methods := []\<rparr>]\<rparr>"
  have raw: "Type ?t = ''raw''" by (simp add: good_template_def)
  have ij: "(0::nat) < 1" by simp
  have len: "1 < length (Requests ?t)" by simp
  have e0: "Endpoint (Requests ?t ! 0) = []" by (simp add: default_rule_def)
  have e1: "Endpoint (Requests ?t ! 1) = []" by simp
  have d: "distinct (map ID (Requests ?t))" by (simp add: default_rule_def login_rule_def)
  from empty_endpoints_duplicate [OF raw ij len e0 e1] d show ?thesis by simp
qed

subsection \<open>The empty ignore entry\<close>

text \<open>
  C3. The leading-slash test of \<open>CheckIgnore\<close> reads the first character of every ignore
  entry. On a template whose only ignore entry is the empty string the index is out of
  range: \<open>CheckIgnore\<close>, and with it \<open>CheckTemplate\<close>, panics instead of returning the
  error that asks for a leading slash.
\<close>

theorem CheckIgnore_empty_entry_faults:
  "CheckIgnore (good_template\<lparr>Ignore := [[]]\<rparr>) = Fault \<and>
   CheckTemplate (good_template\<lparr>Ignore := [[]]\<rparr>) = Fault \<and>
   CheckTemplate (good_template\<lparr>Ignore := [[]]\<rparr>) \<noteq> Failure IgnorePathNotAbsolute"
  by (simp add: good_template_def login_rule_def default_rule_def CheckTemplate_def
      CheckRawTeplate_def IDUnique_def EndpointUnique_def MissingTemplateDefault_def
      CheckRequests_def CheckDefaultRequest_def Default_def CheckIgnore_def
      RemoveDuplicateValues_def Trim_def)

subsection \<open>Order of the checks of a raw template\<close>

lemma raw_checks_nth:
  "(raw_checks ! 0) tmpl = (if IDUnique tmpl then Success else Failure DuplicateID)"
  "(raw_checks ! 1) tmpl = (if EndpointUnique tmpl then Success else Failure DuplicateEndpoint)"
  "(raw_checks ! 2) tmpl = (if MissingTemplateDefault tmpl then Failure MissingDefault else Success)"
  "(raw_checks ! 3) tmpl = CheckRequests tmpl"
  "(raw_checks ! 4) tmpl = CheckDefaultRequest tmpl"
  "(raw_checks ! 5) tmpl = CheckIgnore tmpl"
  by (simp_all add: raw_checks_def eval_nat_numeral)

lemma CheckRawTeplate_chain:
  "CheckRawTeplate tmpl =
     (if (raw_checks ! 0) tmpl \<noteq> Success then (raw_checks ! 0) tmpl
      else if (raw_checks ! 1) tmpl \<noteq> Success then (raw_checks ! 1) tmpl
      else if (raw_checks ! 2) tmpl \<noteq> Success then (raw_checks ! 2) tmpl
      else if (raw_checks ! 3) tmpl \<noteq> Success then (raw_checks ! 3) tmpl
      else if (raw_checks ! 4) tmpl \<noteq> Success then (raw_checks ! 4) tmpl
      else (raw_checks ! 5) tmpl)"
  unfolding raw_checks_nth CheckRawTeplate_def
  by (cases "CheckRequests tmpl"; cases "CheckDefaultRequest tmpl"; cases "CheckIgnore tmpl")
    (simp_all add: DuplicateID_def DuplicateEndpoint_def MissingDefault_def)

lemma less_six: "i < 6 \<Longrightarrow> i = 0 \<or> i = 1 \<or> i = 2 \<or> i = 3 \<or> i = 4 \<or> i = (5::nat)"
  by arith

text \<open>
  C5. \<open>CheckRawTeplate\<close> runs six checks in the order: uniqueness of the ids, uniqueness
  of the endpoints, presence of the default rule, completeness of the requests,
  completeness of the default rule, the ignore list. Its result is the result of the first
  check that does not succeed, whatever the later checks would say, and success when all
  six succeed: one error at most is reported.
\<close>

theorem CheckRawTeplate_first_failure:
  "length raw_checks = 6 \<and>
   (\<forall>i<length raw_checks.
      (\<forall>j<i. (raw_checks ! j) tmpl = Success) \<and> (raw_checks ! i) tmpl \<noteq> Success
      \<longrightarrow> CheckRawTeplate tmpl = (raw_checks ! i) tmpl) \<and>
   ((\<forall>i<length raw_checks. (raw_checks ! i) tmpl = Success)
      \<longrightarrow> CheckRawTeplate tmpl = Success) \<and>
   (Type tmpl = ''raw'' \<longrightarrow> CheckTemplate tmpl = CheckRawTeplate tmpl)"
proof (intro conjI allI impI)
  show len: "length raw_checks = 6" by (simp add: raw_checks_def)
  {
    fix i
    assume i: "i < length raw_checks"
      and h: "(\<forall>j<i. (raw_checks ! j) tmpl = Success) \<and> (raw_checks ! i) tmpl \<noteq> Success"
    from i len have "i = 0 \<or> i = 1 \<or> i = 2 \<or> i = 3 \<or> i = 4 \<or> i = 5"
      using less_six [of i] by simp
    then show "CheckRawTeplate tmpl = (raw_checks ! i) tmpl"
    proof (elim disjE)
      assume "i = 0"
      with h show ?thesis by (simp add: CheckRawTeplate_chain)
    next
      assume "i = 1"
      with h show ?thesis by (simp add: CheckRawTeplate_chain)
    next
      assume "i = 2"
      with h show ?thesis by (simp add: CheckRawTeplate_chain eval_nat_numeral All_less_Suc)
    next
      assume "i = 3"
      with h show ?thesis by (simp add: CheckRawTeplate_chain eval_nat_numeral All_less_Suc)
    next
      assume "i = 4"
      with h show ?thesis by (simp add: CheckRawTeplate_chain eval_nat_numeral All_less_Suc)
    next
      assume "i = 5"
      with h show ?thesis by (simp add: CheckRawTeplate_chain eval_nat_numeral All_less_Suc)
    qed
  }
  {
    assume "\<forall>i<length raw_checks. (raw_checks ! i) tmpl = Success"
    with len show "CheckRawTeplate tmpl = Success"
      by (simp add: CheckRawTeplate_chain eval_nat_numeral All_less_Suc)
  }
  {
    assume "Type tmpl = ''raw''"
    then show "CheckTemplate tmpl = CheckRawTeplate tmpl" by (simp add: CheckTemplate_def)
  }
qed

theorem CheckRawTeplate_first_failure_witness:
  "(raw_checks ! 3)
      (good_template\<lparr>Requests := [login_rule, login_rule\<lparr>ID := ''other'', Methods := []\<rparr>,
         default_rule], Ignore := [''admin'']\<rparr>) \<noteq> Success \<and>
   (raw_checks ! 5)
      (good_template\<lparr>Requests := [login_rule, login_rule\<lparr>ID := ''other'', Methods := []\<rparr>,
         default_rule], Ignore := [''admin'']\<rparr>) \<noteq> Success \<and>
   CheckRawTeplate
      (good_template\<lparr>Requests := [login_rule, login_rule\<lparr>ID := ''other'', Methods := []\<rparr>,
         default_rule], Ignore := [''admin'']\<rparr>) = Failure DuplicateEndpoint"
proof -
  let ?t = "good_template\<lparr>Requests := [login_rule, login_rule\<lparr>ID := ''other'', Methods := []\<rparr>,
         default_rule], Ignore := [''admin'']\<rparr>"
  have c0: "(raw_checks ! 0) ?t = Success"
    unfolding raw_checks_nth by (simp add: IDUnique_def good_template_def login_rule_def default_rule_def)
  have c1: "(raw_checks ! 1) ?t = Failure DuplicateEndpoint"
    unfolding raw_checks_nth by (simp add: EndpointUnique_def good_template_def login_rule_def default_rule_def)
  have c3: "(raw_checks ! 3) ?t \<noteq> Success"
    unfolding raw_checks_nth by (simp add: CheckRequests_def login_rule_def Trim_def)
  have c5: "(raw_checks ! 5) ?t \<noteq> Success"
    unfolding raw_checks_nth by (simp add: CheckIgnore_def RemoveDuplicateValues_def)
  have len: "1 < length raw_checks" by (simp add: raw_checks_def)
  have pre: "(\<forall>j<1. (raw_checks ! j) ?t = Success) \<and> (raw_checks ! 1) ?t \<noteq> Success"
    using c0 c1 by simp
  from CheckRawTeplate_first_failure [of ?t, THEN conjunct2, THEN conjunct1, THEN spec, of 1,
      THEN mp, OF len, THEN mp, OF pre]
  show ?thesis using c1 c3 c5 by simp
qed

subsection \<open>Validation of a raw template\<close>

lemma CheckRawTeplate_Success:
  "(CheckRawTeplate tmpl = Success) =
   (IDUnique tmpl \<and> EndpointUnique tmpl \<and> \<not> MissingTemplateDefault tmpl \<and>
    CheckRequests tmpl = Success \<and> CheckDefaultRequest tmpl = Success \<and>
    CheckIgnore tmpl = Success)"
  unfolding CheckRawTeplate_def
  by (cases "CheckRequests tmpl"; cases "CheckDefaultRequest tmpl"; cases "CheckIgnore tmpl")
    simp_all

lemma CheckDefaultRequest_Success:
  "(CheckDefaultRequest tmpl = Success) =
   (Trim (ResponseType (Default tmpl)) '' '' \<noteq> [] \<and>
    Trim (ContentType (Default tmpl)) '' '' \<noteq> [] \<and>
    Trim (Content (Default tmpl)) '' '' \<noteq> [])"
  by (simp add: CheckDefaultRequest_def Let_def)

lemma Default_loop_distinct:
  "distinct (map ID rs) \<Longrightarrow> r \<in> set rs \<Longrightarrow> ID r = ''default'' \<Longrightarrow> Default_loop rs = Some r"
proof (induction rs)
  case Nil
  then show ?case by simp
next
  case (Cons entry rest)
  show ?case
  proof (cases "r = entry")
    case True
    with Cons.prems show ?thesis by simp
  next
    case False
    with Cons.prems have mem: "r \<in> set rest" by simp
    with Cons.prems have "ID entry \<noteq> ID r" by force
    with Cons.prems have "ID entry \<noteq> ''default''" by simp
    moreover from Cons.prems mem have "Default_loop rest = Some r" by (simp add: Cons.IH)
    ultimately show ?thesis by simp
  qed
qed

lemma one_default:
  "distinct (map ID rs) \<Longrightarrow>
   (length (filter (\<lambda>r. ID r = d) rs) = 1) = (\<exists>r\<in>set rs. ID r = d)"
proof (induction rs)
  case Nil
  show ?case by simp
next
  case (Cons entry rest)
  show ?case
  proof (cases "ID entry = d")
    case True
    from Cons.prems have "ID entry \<notin> ID ` set rest" by simp
    with True have "\<forall>r\<in>set rest. ID r \<noteq> d" by (metis image_eqI)
    then have "filter (\<lambda>r. ID r = d) rest = []" by (simp add: filter_empty_conv)
    with True show ?thesis by simp
  next
    case False
    with Cons show ?thesis by simp
  qed
qed

lemma raw_valid_iff:
  assumes raw: "Type tmpl = ''raw''"
  shows "(CheckRawTeplate tmpl = Success) = raw_valid tmpl"
proof (cases "distinct (map ID (Requests tmpl)) \<and> (\<exists>r\<in>set (Requests tmpl). ID r = ''default'')")
  case False
  then have "\<not> (IDUnique tmpl \<and> \<not> MissingTemplateDefault tmpl)"
    using raw by (auto simp: IDUnique_raw MissingTemplateDefault_raw)
  then have l: "CheckRawTeplate tmpl \<noteq> Success" by (auto simp: CheckRawTeplate_Success)
  from False have "\<not> (distinct (map ID (Requests tmpl)) \<and>
      length (filter (\<lambda>r. ID r = ''default'') (Requests tmpl)) = 1)"
    using one_default [of "Requests tmpl" "''default''"] by blast
  then have "\<not> raw_valid tmpl" by (auto simp: raw_valid_def raw_valid_stated_def)
  with l show ?thesis by simp
next
  case True
  then have ids: "distinct (map ID (Requests tmpl))" by simp
  from True obtain d where d: "d \<in> set (Requests tmpl)" "ID d = ''default''" by blast
  from ids d have "Default_loop (Requests tmpl) = Some d" by (rule Default_loop_distinct)
  with raw have def: "Default tmpl = d" by (simp add: Default_def)
  have only: "\<And>r. r \<in> set (Requests tmpl) \<Longrightarrow> ID r = ''default'' \<Longrightarrow> r = d"
  proof -
    fix r assume "r \<in> set (Requests tmpl)" "ID r = ''default''"
    with ids have "Default_loop (Requests tmpl) = Some r" by (rule Default_loop_distinct)
    with \<open>Default_loop (Requests tmpl) = Some d\<close> show "r = d" by simp
  qed
  have one: "length (filter (\<lambda>r. ID r = ''default'') (Requests tmpl)) = 1"
    using one_default [OF ids, of "''default''"] d by blast
  have c5: "(CheckDefaultRequest tmpl = Success) =
      (\<forall>r\<in>set (Requests tmpl). ID r = ''default'' \<longrightarrow>
         Trim (ResponseType r) '' '' \<noteq> [] \<and> Trim (ContentType r) '' '' \<noteq> [] \<and>
         Trim (Content r) '' '' \<noteq> [])"
    unfolding CheckDefaultRequest_Success def using d only by blast
  have c4: "(CheckRequests tmpl = Success) =
      ((\<forall>r\<in>set (Requests tmpl). Trim (ID r) '' '' \<noteq> []) \<and>
       (\<forall>r\<in>set (Requests tmpl). ID r \<noteq> ''default'' \<longrightarrow>
         Trim (Endpoint r) '' '' \<noteq> [] \<and> Methods r \<noteq> [] \<and>
         Trim (ResponseType r) '' '' \<noteq> [] \<and> Trim (ContentType r) '' '' \<noteq> [] \<and>
         Trim (Content r) '' '' \<noteq> []))"
    unfolding CheckRequests_def CheckRequests_loop_Success request_complete_def by blast
  have c1: "IDUnique tmpl" using raw ids by (simp add: IDUnique_raw)
  have c3: "\<not> MissingTemplateDefault tmpl" using raw d by (auto simp: MissingTemplateDefault_raw)
  have c2: "EndpointUnique tmpl = distinct (map Endpoint (Requests tmpl))"
    using raw by (rule EndpointUnique_raw)
  have c6: "(CheckIgnore tmpl = Success) =
     (Ignore tmpl \<noteq> [] \<longrightarrow>
         distinct (Ignore tmpl) \<and>
         (\<forall>p\<in>set (Ignore tmpl). p \<noteq> [] \<and> hd p = CHR ''/'') \<and>
         (\<forall>p\<in>set (Ignore tmpl). \<forall>r\<in>set (Requests tmpl). p \<noteq> Endpoint r))"
    unfolding CheckIgnore_Success by blast
  show ?thesis
    unfolding CheckRawTeplate_Success raw_valid_def raw_valid_stated_def c4 c5 c6 c2
    using c1 c3 ids one by blast
qed

text \<open>
  C1, as stated: a raw template passes validation exactly when its ids are pairwise
  distinct, its endpoints are pairwise distinct, exactly one rule has the id \<open>default\<close>,
  every other rule has its five fields, the default rule has its three fields, and the
  ignore list, if not empty, has no duplicate, only entries with a leading slash and no
  endpoint of a rule. The template with a rule whose id is one space meets all of that and
  is rejected, with the missing-id error of \<open>CheckRequests\<close>.
\<close>

theorem raw_validation_counterexample:
  "Type blank_id_template = ''raw'' \<and>
   raw_valid_stated blank_id_template \<and>
   CheckTemplate blank_id_template = Failure MissingID \<and>
   CheckTemplate blank_id_template \<noteq> Success"
proof -
  have "raw_valid_stated blank_id_template"
    by (simp add: raw_valid_stated_def blank_id_template_def login_rule_def default_rule_def
        Trim_def)
  moreover have "CheckTemplate blank_id_template = Failure MissingID"
    by (simp add: blank_id_template_def login_rule_def default_rule_def CheckTemplate_def
        CheckRawTeplate_def IDUnique_def EndpointUnique_def MissingTemplateDefault_def
        CheckRequests_def Trim_def MissingID_def)
  ultimately show ?thesis by (simp add: blank_id_template_def)
qed

text \<open>
  C1, amended. A raw template passes validation (\<open>CheckTemplate\<close>, that is
  \<open>CheckRawTeplate\<close>) exactly when the conditions above hold and, in addition, every
  rule has an id that is not blank.
\<close>

theorem raw_validation:
  assumes "Type tmpl = ''raw''"
  shows "(CheckTemplate tmpl = Success) = raw_valid tmpl \<and>
         (CheckRawTeplate tmpl = Success) = raw_valid tmpl"
  using assms raw_valid_iff [OF assms] by (simp add: CheckTemplate_def)

theorem raw_validation_witness:
  "raw_valid good_template \<and> CheckTemplate good_template = Success \<and>
   \<not> raw_valid blank_id_template \<and> CheckTemplate blank_id_template \<noteq> Success"
proof -
  have g: "Type good_template = ''raw''" by (simp add: good_template_def)
  have b: "Type blank_id_template = ''raw''" by (simp add: blank_id_template_def)
  have v: "raw_valid good_template"
    by (simp add: raw_valid_def raw_valid_stated_def good_template_def login_rule_def
        default_rule_def Trim_def)
  have n: "\<not> raw_valid blank_id_template"
    by (simp add: raw_valid_def blank_id_template_def login_rule_def Trim_def)
  from raw_validation [OF g] raw_validation [OF b] v n show ?thesis by simp
qed

end
